theory Spec2Isabelle
  imports Main "HOL-Library.Word" "HOL-Library.Sublist"
begin

section \<open>Python values used by the Outlook message converter\<close>

text \<open>
  A Python \<open>bytes\<close> object is a list of 8-bit words. A Python \<open>str\<close> is a sequence of
  Unicode code points, so it is a list of naturals (an Isabelle \<open>char\<close> is one byte and
  cannot hold them). \<open>lit\<close> turns an ASCII literal of the source into such a string.
\<close>

type_synonym byte = "8 word"
type_synonym pystr = "nat list"

definition lit :: "string \<Rightarrow> pystr" where
  "lit s = map of_char s"

text \<open>
  The exceptions that can travel through the converter. All of them are subclasses of
  Python's \<open>Exception\<close>, so a handler \<open>except Exception\<close> catches each of them.
  \<open>MissingDependencyException\<close> carries the three values that the source substitutes
  into the message template (converter, extension, feature); the template itself lives in
  the package's \<open>_exceptions\<close> module. \<open>LibraryError\<close> stands for any exception raised
  inside the olefile package (\<open>OSError\<close> and the like), tagged by a number;
  \<open>RecursionError\<close> is what the interpreter raises when calls nest too deeply, as the
  HTML-to-markdown function does on deeply nested markup.
\<close>

datatype exn =
    UnicodeDecodeError
  | TypeError
  | AssertionError
  | ImportError
  | MissingDependencyException pystr pystr pystr
  | LibraryError nat
  | RecursionError

subsection \<open>String methods\<close>

text \<open>
  \<open>str.strip()\<close> without argument removes leading and trailing whitespace, where
  whitespace is what \<open>str.isspace\<close> accepts: the ASCII separators and controls
  \<open>0x09-0x0D\<close>, \<open>0x1C-0x20\<close>, and the Unicode spaces listed below. The null character
  is not among them.
\<close>

definition isspace :: "nat \<Rightarrow> bool" where
  "isspace c \<longleftrightarrow>
     (0x09 \<le> c \<and> c \<le> 0x0D) \<or> (0x1C \<le> c \<and> c \<le> 0x20) \<or> c = 0x85 \<or> c = 0xA0 \<or>
     c = 0x1680 \<or> (0x2000 \<le> c \<and> c \<le> 0x200A) \<or> c = 0x2028 \<or> c = 0x2029 \<or>
     c = 0x202F \<or> c = 0x205F \<or> c = 0x3000"

definition strip :: "pystr \<Rightarrow> pystr" where
  "strip text = rev (dropWhile isspace (rev (dropWhile isspace text)))"

text \<open>\<open>text.endswith(suffix)\<close>, \<open>text.startswith(prefix)\<close> and \<open>needle in text\<close>.\<close>

definition endswith :: "pystr \<Rightarrow> pystr \<Rightarrow> bool" where
  "endswith text sfx = suffix sfx text"

definition startswith :: "pystr \<Rightarrow> pystr \<Rightarrow> bool" where
  "startswith text pfx = prefix pfx text"

fun contains :: "pystr \<Rightarrow> pystr \<Rightarrow> bool" where
  "contains [] needle = (needle = [])"
| "contains (c # cs) needle = (prefix needle (c # cs) \<or> contains cs needle)"

text \<open>\<open>sep.join(parts)\<close>.\<close>

fun join :: "pystr \<Rightarrow> pystr list \<Rightarrow> pystr" where
  "join sep [] = []"
| "join sep [p] = p"
| "join sep (p # q # ps) = p @ sep @ join sep (q # ps)"

subsection \<open>Codecs\<close>

text \<open>
  \<open>bytes.decode('utf-16-le')\<close> in strict mode: the bytes are taken two at a time, low
  byte first; a trailing single byte is an error (truncated data); a code unit in
  \<open>D800-DBFF\<close> must be followed by one in \<open>DC00-DFFF\<close> and the pair gives one code
  point above \<open>FFFF\<close>; any other surrogate is an error. No byte order mark is removed.
\<close>

fun utf16_units :: "byte list \<Rightarrow> nat list option" where
  "utf16_units [] = Some []"
| "utf16_units [b] = None"
| "utf16_units (lo # hi # rest) =
     map_option (\<lambda>us. (unat lo + 256 * unat hi) # us) (utf16_units rest)"

fun utf16_pairs :: "nat list \<Rightarrow> pystr option" where
  "utf16_pairs [] = Some []"
| "utf16_pairs (u # us) =
     (if u < 0xD800 \<or> 0xDFFF < u then map_option (\<lambda>cs. u # cs) (utf16_pairs us)
      else if u \<le> 0xDBFF then
        (case us of
           [] \<Rightarrow> None
         | v # vs \<Rightarrow>
             if 0xDC00 \<le> v \<and> v \<le> 0xDFFF
             then map_option (\<lambda>cs. (0x10000 + (u - 0xD800) * 0x400 + (v - 0xDC00)) # cs)
                    (utf16_pairs vs)
             else None)
      else None)"

definition decode_utf_16_le :: "byte list \<Rightarrow> exn + pystr" where
  "decode_utf_16_le data =
     (case utf16_units data of
        None \<Rightarrow> Inl UnicodeDecodeError
      | Some us \<Rightarrow>
          (case utf16_pairs us of
             None \<Rightarrow> Inl UnicodeDecodeError
           | Some s \<Rightarrow> Inr s))"

text \<open>
  \<open>bytes.decode('iso-8859-1')\<close>: every byte is the code point of the same value. The
  result is given in the same sum type as the other codecs, since the source wraps the
  call into an exception handler.
\<close>

definition decode_iso_8859_1 :: "byte list \<Rightarrow> exn + pystr" where
  "decode_iso_8859_1 data = Inr (map unat data)"

text \<open>
  UTF-8. \<open>utf8_scan\<close> walks over the byte values as the interpreter's decoder does and
  yields, in order, either a decoded code point or \<open>None\<close> for a span of bytes that is
  not valid: a byte that cannot start a sequence (\<open>80-C1\<close>, \<open>F5-FF\<close>), a lead byte whose
  continuation is wrong (the span ends before the offending byte, which is scanned again),
  or a sequence cut off by the end of the data (the span is the whole remainder). Overlong
  forms, surrogates and values above \<open>10FFFF\<close> are rejected at the second byte.
  Strict decoding raises when there is such a span; with \<open>errors='ignore'\<close> the spans
  are dropped.
\<close>

definition is_cont :: "nat \<Rightarrow> bool" where
  "is_cont c \<longleftrightarrow> 0x80 \<le> c \<and> c < 0xC0"

fun utf8_scan :: "nat list \<Rightarrow> nat option list" where
  "utf8_scan [] = []"
| "utf8_scan (c # rest) =
     (if c < 0x80 then Some c # utf8_scan rest
      else if c < 0xC2 then None # utf8_scan rest
      else if c < 0xE0 then
        (case rest of
           [] \<Rightarrow> [None]
         | c2 # r2 \<Rightarrow>
             if \<not> is_cont c2 then None # utf8_scan rest
             else Some ((c - 0xC0) * 0x40 + (c2 - 0x80)) # utf8_scan r2)
      else if c < 0xF0 then
        (case rest of
           [] \<Rightarrow> [None]
         | c2 # r2 \<Rightarrow>
             if \<not> is_cont c2 \<or> (c = 0xE0 \<and> c2 < 0xA0) \<or> (c = 0xED \<and> 0xA0 \<le> c2)
             then None # utf8_scan rest
             else
               (case r2 of
                  [] \<Rightarrow> [None]
                | c3 # r3 \<Rightarrow>
                    if \<not> is_cont c3 then None # utf8_scan r2
                    else Some ((c - 0xE0) * 0x1000 + (c2 - 0x80) * 0x40 + (c3 - 0x80))
                           # utf8_scan r3))
      else if c < 0xF5 then
        (case rest of
           [] \<Rightarrow> [None]
         | c2 # r2 \<Rightarrow>
             if \<not> is_cont c2 \<or> (c = 0xF0 \<and> c2 < 0x90) \<or> (c = 0xF4 \<and> 0x90 \<le> c2)
             then None # utf8_scan rest
             else
               (case r2 of
                  [] \<Rightarrow> [None]
                | c3 # r3 \<Rightarrow>
                    if \<not> is_cont c3 then None # utf8_scan r2
                    else
                      (case r3 of
                         [] \<Rightarrow> [None]
                       | c4 # r4 \<Rightarrow>
                           if \<not> is_cont c4 then None # utf8_scan r3
                           else Some ((c - 0xF0) * 0x40000 + (c2 - 0x80) * 0x1000
                                        + (c3 - 0x80) * 0x40 + (c4 - 0x80))
                                  # utf8_scan r4)))
      else None # utf8_scan rest)"

definition decode_utf_8 :: "byte list \<Rightarrow> exn + pystr" where
  "decode_utf_8 data =
     (let items = utf8_scan (map unat data)
      in if None \<in> set items then Inl UnicodeDecodeError else Inr (List.map_filter (\<lambda>item. item) items))"

definition decode_utf_8_ignore :: "byte list \<Rightarrow> exn + pystr" where
  "decode_utf_8_ignore data = Inr (List.map_filter (\<lambda>item. item) (utf8_scan (map unat data)))"


section \<open>The environment of the converter\<close>

text \<open>
  The olefile package is not part of the repository; the converter uses it through two
  module functions and four methods of the container object. A call of any of them may
  move the read cursor of the stream the container was opened on; the outcome of a
  method of the container depends on the container only.
\<close>

record ole_container =
  listdir :: "exn + pystr list list"
  exists :: "pystr \<Rightarrow> exn + bool"
  openstream :: "pystr \<Rightarrow> exn + byte list"
  repositions :: "nat \<Rightarrow> nat"

text \<open>
  \<open>isOleFile\<close> and \<open>OleFileIO\<close> get the bytes of the stream and its cursor, and leave
  an answer and a cursor. \<open>isOleFile\<close> compares the signature at the head of the
  file and answers with a truth value; \<open>OleFileIO\<close> raises on bytes it cannot parse.
\<close>

record ole_module =
  isOleFile :: "byte list \<Rightarrow> nat \<Rightarrow> bool \<times> nat"
  OleFileIO :: "byte list \<Rightarrow> nat \<Rightarrow> (exn + ole_container) \<times> nat"

text \<open>
  The names the module body binds, and the built-ins it relies on. \<open>olefile\<close> and
  \<open>dependency_exc_info\<close> are the two globals set by the guarded import at the top of
  the file; \<open>Markdownify\<close> is the imported HTML-to-markdown function, which returns a
  text or raises; \<open>lower\<close> is \<open>str.lower\<close> (the interpreter's Unicode case mapping) and
  \<open>str\<close> is the built-in \<open>str()\<close> applied to one entry of a directory listing, which is
  a list of names.
\<close>

record env =
  olefile :: "ole_module option"
  dependency_exc_info :: "exn option"
  Markdownify :: "pystr \<Rightarrow> exn + pystr"
  lower :: "pystr \<Rightarrow> pystr"
  str :: "pystr list \<Rightarrow> pystr"

text \<open>
  The guarded import: \<open>olefile = None\<close>, then \<open>import olefile\<close>; when the import
  fails the exception information is kept and \<open>olefile\<close> stays \<open>None\<close>. The argument
  is the package when it is installed.
\<close>

definition import_olefile :: "ole_module option \<Rightarrow> 'a env_scheme \<Rightarrow> 'a env_scheme" where
  "import_olefile installed E =
     (case installed of
        Some lib \<Rightarrow> E\<lparr>olefile := Some lib, dependency_exc_info := None\<rparr>
      | None \<Rightarrow> E\<lparr>olefile := None, dependency_exc_info := Some ImportError\<rparr>)"

definition ACCEPTED_MIME_TYPE_PREFIXES :: "pystr list" where
  "ACCEPTED_MIME_TYPE_PREFIXES = [lit ''application/vnd.ms-outlook'']"

definition ACCEPTED_FILE_EXTENSIONS :: "pystr list" where
  "ACCEPTED_FILE_EXTENSIONS = [lit ''.msg'']"

text \<open>
  The input stream and what the converter does to the outside: the bytes of the stream,
  its read cursor, and the calls made on containers in the order they happen.
\<close>

datatype event = Opened | ListDir | Exists pystr | OpenStream pystr | Closed

record world =
  stream_bytes :: "byte list"
  cursor :: nat
  trace :: "event list"

text \<open>
  \<open>StreamInfo\<close> as far as the converter reads it; its other attributes (file name,
  charset, URL, path) are the extension part of the record.
\<close>

record stream_info =
  mimetype :: "pystr option"
  extension :: "pystr option"

record document_converter_result =
  markdown :: pystr
  title :: "pystr option"

subsection \<open>Statements with exceptions and effects\<close>

text \<open>
  A computation without effect is a value of \<open>exn + 'a\<close>; a statement that touches the
  stream or a container takes the world and gives an outcome and the world after it.
  A \<open>return\<close> inside a \<open>try\<close> block is an outcome \<open>Some v\<close> of the block, reaching
  the end of the block is \<open>None\<close>.
\<close>

type_synonym 'a prog = "world \<Rightarrow> (exn + 'a) \<times> world"

definition bind_exn :: "exn + 'a \<Rightarrow> ('a \<Rightarrow> exn + 'b) \<Rightarrow> exn + 'b" where
  "bind_exn m f = (case m of Inl e \<Rightarrow> Inl e | Inr v \<Rightarrow> f v)"

definition try_except :: "exn + 'a \<Rightarrow> (exn \<Rightarrow> bool) \<Rightarrow> exn + 'a \<Rightarrow> exn + 'a" where
  "try_except body catches handler =
     (case body of Inr v \<Rightarrow> Inr v | Inl e \<Rightarrow> if catches e then handler else Inl e)"

definition returnM :: "'a \<Rightarrow> 'a prog" where
  "returnM v w = (Inr v, w)"

definition raiseM :: "exn \<Rightarrow> 'a prog" where
  "raiseM e w = (Inl e, w)"

definition liftM :: "exn + 'a \<Rightarrow> 'a prog" where
  "liftM r w = (r, w)"

definition bindM :: "'a prog \<Rightarrow> ('a \<Rightarrow> 'b prog) \<Rightarrow> 'b prog" where
  "bindM m f w = (case m w of (Inl e, w') \<Rightarrow> (Inl e, w') | (Inr v, w') \<Rightarrow> f v w')"

definition try_exceptM :: "'a prog \<Rightarrow> (exn \<Rightarrow> bool) \<Rightarrow> 'a prog \<Rightarrow> 'a prog" where
  "try_exceptM body catches handler w =
     (case body w of
        (Inr v, w') \<Rightarrow> (Inr v, w')
      | (Inl e, w') \<Rightarrow> if catches e then handler w' else (Inl e, w'))"

definition try_finallyM :: "'a prog \<Rightarrow> unit prog \<Rightarrow> 'a prog" where
  "try_finallyM body final w =
     (case body w of
        (r, w') \<Rightarrow> (case final w' of (Inl e, w'') \<Rightarrow> (Inl e, w'') | (Inr _, w'') \<Rightarrow> (r, w'')))"

definition is_Exception :: "exn \<Rightarrow> bool" where
  "is_Exception e = True"

definition is_UnicodeDecodeError :: "exn \<Rightarrow> bool" where
  "is_UnicodeDecodeError e = (e = UnicodeDecodeError)"

text \<open>The calls on the stream and on the olefile package.\<close>

definition tell :: "nat prog" where
  "tell w = (Inr (cursor w), w)"

definition seek :: "nat \<Rightarrow> unit prog" where
  "seek p w = (Inr (), w\<lparr>cursor := p\<rparr>)"

definition call_isOleFile :: "ole_module \<Rightarrow> bool prog" where
  "call_isOleFile lib w =
     (case isOleFile lib (stream_bytes w) (cursor w) of (b, c) \<Rightarrow> (Inr b, w\<lparr>cursor := c\<rparr>))"

definition call_OleFileIO :: "ole_module \<Rightarrow> ole_container prog" where
  "call_OleFileIO lib w =
     (case OleFileIO lib (stream_bytes w) (cursor w) of
        (Inl e, c) \<Rightarrow> (Inl e, w\<lparr>cursor := c\<rparr>)
      | (Inr msg, c) \<Rightarrow> (Inr msg, w\<lparr>cursor := c, trace := trace w @ [Opened]\<rparr>))"

definition call_listdir :: "ole_container \<Rightarrow> pystr list list prog" where
  "call_listdir msg w =
     (listdir msg, w\<lparr>cursor := repositions msg (cursor w), trace := trace w @ [ListDir]\<rparr>)"

definition call_exists :: "ole_container \<Rightarrow> pystr \<Rightarrow> bool prog" where
  "call_exists msg path w =
     (exists msg path,
      w\<lparr>cursor := repositions msg (cursor w), trace := trace w @ [Exists path]\<rparr>)"

definition call_openstream_read :: "ole_container \<Rightarrow> pystr \<Rightarrow> byte list prog" where
  "call_openstream_read msg path w =
     (openstream msg path,
      w\<lparr>cursor := repositions msg (cursor w), trace := trace w @ [OpenStream path]\<rparr>)"

definition call_close :: "ole_container \<Rightarrow> unit prog" where
  "call_close msg w = (Inr (), w\<lparr>trace := trace w @ [Closed]\<rparr>)"


section \<open>The converter\<close>

subsection \<open>Decoding helpers\<close>

text \<open>
  \<open>_strip_null_terminator\<close>: one trailing null character is removed when there is
  one, then the text is stripped.
\<close>

definition strip_null_terminator :: "pystr \<Rightarrow> pystr" where
  "strip_null_terminator text =
     (let text = (if text \<noteq> [] \<and> endswith text [0] then butlast text else text)
      in strip text)"

text \<open>The local function \<open>is_valid_html\<close> of \<open>_process_html_stream\<close>.\<close>

definition html_markers :: "pystr list" where
  "html_markers = [lit ''<html'', lit ''<body'', lit ''<head'', lit ''<div'']"

definition is_valid_html :: "'a env_scheme \<Rightarrow> pystr \<Rightarrow> bool" where
  "is_valid_html E content =
     (let content_lower = lower E content
      in list_ex (\<lambda>marker. contains content_lower marker) html_markers)"

text \<open>
  \<open>_process_html_stream\<close>. The outer \<open>try\<close> block returns from inside (\<open>Some\<close>) or
  runs to its end (\<open>None\<close>); its handler for \<open>UnicodeDecodeError\<close> holds a second
  \<open>try\<close> block with a handler of its own; after both, the function returns the empty
  string. The calls of \<open>Markdownify\<close> stand inside the \<open>try\<close> blocks: what they raise
  is caught when it is a \<open>UnicodeDecodeError\<close> and leaves the function otherwise.
\<close>

definition process_html_stream :: "'a env_scheme \<Rightarrow> byte list \<Rightarrow> exn + pystr" where
  "process_html_stream E raw_data =
     bind_exn
       (try_except
          (bind_exn (decode_utf_16_le raw_data) (\<lambda>decoded.
             let html = strip_null_terminator decoded in
             if is_valid_html E html
             then bind_exn (Markdownify E html) (\<lambda>rendered. Inr (Some rendered))
             else
               bind_exn (decode_iso_8859_1 raw_data) (\<lambda>decoded.
                 let html = strip_null_terminator decoded in
                 if is_valid_html E html
             then bind_exn (Markdownify E html) (\<lambda>rendered. Inr (Some rendered))
                 else
                   bind_exn (decode_utf_8_ignore raw_data) (\<lambda>decoded.
                     let html = strip_null_terminator decoded in
                     if is_valid_html E html
             then bind_exn (Markdownify E html) (\<lambda>rendered. Inr (Some rendered))
                     else Inr None))))
          is_UnicodeDecodeError
          (try_except
             (bind_exn (decode_iso_8859_1 raw_data) (\<lambda>decoded.
                let html = strip_null_terminator decoded in
                if is_valid_html E html
             then bind_exn (Markdownify E html) (\<lambda>rendered. Inr (Some rendered))
                else Inr None))
             is_UnicodeDecodeError
             (Inr None)))
       (\<lambda>returned. case returned of Some text \<Rightarrow> Inr text | None \<Rightarrow> Inr [])"

text \<open>
  \<open>_get_stream_data\<close>. The two assertions stand before the \<open>try\<close> block; the second
  one (\<open>msg\<close> is a container of olefile) holds by the type of \<open>msg\<close>. The handler
  \<open>except Exception: pass\<close> leads to the final \<open>return None\<close>, as does a stream that
  does not exist.
\<close>

definition get_stream_data :: "'a env_scheme \<Rightarrow> ole_container \<Rightarrow> pystr \<Rightarrow> pystr option prog" where
  "get_stream_data E msg stream_path =
     (if olefile E = None then raiseM AssertionError
      else
        bindM
          (try_exceptM
             (bindM (call_exists msg stream_path) (\<lambda>found.
                if found then
                  bindM (call_openstream_read msg stream_path) (\<lambda>data.
                    liftM
                      (try_except
                         (bind_exn (decode_utf_16_le data) (\<lambda>decoded.
                            Inr (Some (strip_null_terminator decoded))))
                         is_UnicodeDecodeError
                         (try_except
                            (bind_exn (decode_utf_8 data) (\<lambda>decoded.
                               Inr (Some (strip_null_terminator decoded))))
                            is_UnicodeDecodeError
                            (bind_exn (decode_utf_8_ignore data) (\<lambda>decoded.
                               Inr (Some (strip_null_terminator decoded)))))))
                else returnM None))
             is_Exception
             (returnM None))
          (\<lambda>returned. case returned of Some text \<Rightarrow> returnM (Some text) | None \<Rightarrow> returnM None))"

subsection \<open>accepts\<close>

text \<open>\<open>(value or "")\<close> for an optional string.\<close>

definition or_empty :: "pystr option \<Rightarrow> pystr" where
  "or_empty v = (case v of None \<Rightarrow> [] | Some s \<Rightarrow> s)"

definition properties_marker :: pystr where
  "properties_marker = lit ''__properties_version1.0''"

definition recip_marker :: pystr where
  "recip_marker = lit ''__recip_version1.0_#00000000''"

definition accepts :: "'a env_scheme \<Rightarrow> 'b stream_info_scheme \<Rightarrow> 'kw \<Rightarrow> bool prog" where
  "accepts E info kwargs =
     (let mimetype = lower E (or_empty (mimetype info));
          extension = lower E (or_empty (extension info))
      in
        if extension \<in> set ACCEPTED_FILE_EXTENSIONS then returnM True
        else if list_ex (\<lambda>prefix. startswith mimetype prefix) ACCEPTED_MIME_TYPE_PREFIXES
        then returnM True
        else
          bindM tell (\<lambda>cur_pos.
          bindM
            (try_finallyM
               (case olefile E of
                  None \<Rightarrow> returnM None
                | Some lib \<Rightarrow>
                    bindM (call_isOleFile lib) (\<lambda>is_ole.
                      if \<not> is_ole then returnM (Some False) else returnM None))
               (seek cur_pos))
            (\<lambda>returned.
               case returned of
                 Some answer \<Rightarrow> returnM answer
               | None \<Rightarrow>
                   bindM
                     (try_finallyM
                        (try_exceptM
                           (case olefile E of
                              None \<Rightarrow> returnM None
                            | Some lib \<Rightarrow>
                                bindM (call_OleFileIO lib) (\<lambda>msg.
                                bindM (call_listdir msg) (\<lambda>entries.
                                  let toc = join [10] (map (str E) entries)
                                  in returnM (Some (contains toc properties_marker
                                                    \<and> contains toc recip_marker)))))
                           is_Exception
                           (returnM None))
                        (seek cur_pos))
                     (\<lambda>returned.
                        case returned of
                          Some answer \<Rightarrow> returnM answer
                        | None \<Rightarrow> returnM False))))"


subsection \<open>convert\<close>

text \<open>
  \<open>a + b\<close> where an operand may be \<open>None\<close>: Python concatenates two strings and
  raises \<open>TypeError\<close> when one side is \<open>None\<close>.
\<close>

definition str_add :: "pystr option \<Rightarrow> pystr option \<Rightarrow> exn + pystr" where
  "str_add a b =
     (case (a, b) of
        (Some x, Some y) \<Rightarrow> Inr (x @ y)
      | _ \<Rightarrow> Inl TypeError)"

text \<open>
  The loop over \<open>headers.items()\<close>: a dictionary keeps the order in which its keys were
  written, so the headers are a list of pairs; a value that is \<open>None\<close> or empty is
  skipped.
\<close>

fun add_headers :: "pystr \<Rightarrow> (pystr \<times> pystr option) list \<Rightarrow> pystr" where
  "add_headers md_content [] = md_content"
| "add_headers md_content ((key, value) # items) =
     (case value of
        Some text \<Rightarrow>
          if text \<noteq> []
          then add_headers (md_content @ lit ''**'' @ key @ lit '':** '' @ text @ [10]) items
          else add_headers md_content items
      | None \<Rightarrow> add_headers md_content items)"

definition dict_get :: "(pystr \<times> pystr option) list \<Rightarrow> pystr \<Rightarrow> pystr option" where
  "dict_get d key = (case map_of d key of None \<Rightarrow> None | Some v \<Rightarrow> v)"

definition sender_name_path :: pystr where
  "sender_name_path = lit ''__substg1.0_0C1A001F''"

definition sender_address_path :: pystr where
  "sender_address_path = lit ''__substg1.0_5D01001F''"

definition to_path :: pystr where
  "to_path = lit ''__substg1.0_0E04001F''"

definition subject_path :: pystr where
  "subject_path = lit ''__substg1.0_0037001F''"

definition body_path :: pystr where
  "body_path = lit ''__substg1.0_1000001F''"

definition html_path :: pystr where
  "html_path = lit ''__substg1.0_10130102''"

text \<open>
  The body part of \<open>convert\<close> (from \<open>body = ...\<close> to the line before \<open>msg.close()\<close>):
  it gives the text with the content section appended.
\<close>

definition add_body :: "'a env_scheme \<Rightarrow> ole_container \<Rightarrow> pystr \<Rightarrow> pystr prog" where
  "add_body E msg md_content =
     bindM (get_stream_data E msg body_path) (\<lambda>body.
       let html_branch =
             bindM (call_exists msg html_path) (\<lambda>found.
               if found then
                 bindM (call_openstream_read msg html_path) (\<lambda>raw_data.
                 bindM (liftM (process_html_stream E raw_data)) (\<lambda>html_content.
                   if html_content \<noteq> [] \<and> 0 < length html_content
                   then returnM (md_content @ html_content)
                   else returnM md_content))
               else returnM md_content)
       in
         case body of
           Some text \<Rightarrow> if text \<noteq> [] then returnM (md_content @ text) else html_branch
         | None \<Rightarrow> html_branch)"

text \<open>
  The expression of the \<open>From\<close> entry, evaluated left to right: the name is read and
  joined with \<open>" <"\<close> before the address is read.
\<close>

definition from_header :: "'a env_scheme \<Rightarrow> ole_container \<Rightarrow> pystr prog" where
  "from_header E msg =
     bindM (get_stream_data E msg sender_name_path) (\<lambda>name.
     bindM (liftM (str_add name (Some (lit '' <'')))) (\<lambda>left.
     bindM (get_stream_data E msg sender_address_path) (\<lambda>address.
     bindM (liftM (str_add (Some left) address)) (\<lambda>joined.
       liftM (str_add (Some joined) (Some (lit ''>'')))))))"

definition convert ::
  "'a env_scheme \<Rightarrow> 'b stream_info_scheme \<Rightarrow> 'kw \<Rightarrow> document_converter_result prog" where
  "convert E info kwargs =
     (case dependency_exc_info E of
        Some exc_info \<Rightarrow>
          raiseM (MissingDependencyException
                   (lit ''OutlookMsgConverter'') (lit ''.msg'') (lit ''outlook''))
      | None \<Rightarrow>
          (case olefile E of
             None \<Rightarrow> raiseM AssertionError
           | Some lib \<Rightarrow>
               bindM (call_OleFileIO lib) (\<lambda>msg.
                 let md_content = lit ''# Email Message'' @ [10, 10] in
                 bindM (from_header E msg) (\<lambda>from_value.
                 bindM (get_stream_data E msg to_path) (\<lambda>to_value.
                 bindM (get_stream_data E msg subject_path) (\<lambda>subject_value.
                   let headers = [(lit ''From'', Some from_value),
                                  (lit ''To'', to_value),
                                  (lit ''Subject'', subject_value)];
                       md_content = add_headers md_content headers;
                       md_content = md_content @ [10] @ lit ''## Content'' @ [10, 10]
                   in
                     bindM (add_body E msg md_content) (\<lambda>md_content.
                     bindM (call_close msg) (\<lambda>_.
                       returnM \<lparr>markdown = strip md_content,
                                title = dict_get headers (lit ''Subject'')\<rparr>))))))))"


section \<open>Concrete environments\<close>

text \<open>
  Instances of the environment on which the definitions can be run: \<open>str.lower\<close> on
  ASCII letters, \<open>str()\<close> of a list of plain names, an HTML-to-text function that drops
  the tags, and containers given by their entries. An entry is a stream with its bytes or
  a storage, which exists but cannot be opened as a stream.
\<close>

definition ascii_lower :: "pystr \<Rightarrow> pystr" where
  "ascii_lower s = map (\<lambda>c. if 0x41 \<le> c \<and> c \<le> 0x5A then c + 0x20 else c) s"

definition repr_names :: "pystr list \<Rightarrow> pystr" where
  "repr_names names = lit ''['' @ join (lit '', '') (map (\<lambda>n. [39] @ n @ [39]) names) @ lit '']''"

fun drop_tags :: "bool \<Rightarrow> pystr \<Rightarrow> pystr" where
  "drop_tags inside [] = []"
| "drop_tags inside (c # cs) =
     (if c = 0x3C then drop_tags True cs
      else if c = 0x3E then drop_tags False cs
      else if inside then drop_tags inside cs
      else c # drop_tags inside cs)"

datatype entry = Stream "byte list" | Storage

definition container_of :: "(pystr \<times> entry) list \<Rightarrow> ole_container" where
  "container_of entries =
     \<lparr>listdir = Inr (map (\<lambda>(path, _). [path]) entries),
      exists = (\<lambda>path. Inr (map_of entries path \<noteq> None)),
      openstream = (\<lambda>path. case map_of entries path of
                              Some (Stream data) \<Rightarrow> Inr data
                            | _ \<Rightarrow> Inl (LibraryError 1)),
      repositions = (\<lambda>c. c + 8)\<rparr>"

definition module_opening :: "ole_container \<Rightarrow> ole_module" where
  "module_opening msg =
     \<lparr>isOleFile = (\<lambda>data c. (True, 0)), OleFileIO = (\<lambda>data c. (Inr msg, 512))\<rparr>"

definition module_rejecting :: ole_module where
  "module_rejecting =
     \<lparr>isOleFile = (\<lambda>data c. (False, 0)), OleFileIO = (\<lambda>data c. (Inl (LibraryError 2), 0))\<rparr>"

definition base_env :: env where
  "base_env =
     \<lparr>olefile = None, dependency_exc_info = None, Markdownify = (\<lambda>html. Inr (drop_tags False html)),
      lower = ascii_lower, str = repr_names\<rparr>"

definition env_with :: "ole_container \<Rightarrow> env" where
  "env_with msg = import_olefile (Some (module_opening msg)) base_env"

definition env_without_olefile :: env where
  "env_without_olefile = import_olefile None base_env"

definition ascii_bytes :: "string \<Rightarrow> byte list" where
  "ascii_bytes s = map of_char s"

definition utf_16_le_bytes :: "string \<Rightarrow> byte list" where
  "utf_16_le_bytes s = concat (map (\<lambda>c. [of_char c, 0]) s)"

definition start_world :: world where
  "start_world = \<lparr>stream_bytes = [], cursor = 3, trace = []\<rparr>"

text \<open>
  A container with a subject in UTF-16LE that ends with a null character, a recipient
  field whose odd number of bytes is not UTF-16LE, and a plain body that is a storage.
\<close>

definition hello_container :: ole_container where
  "hello_container =
     container_of [(subject_path, Stream (utf_16_le_bytes ''Hello'' @ [0, 0])),
                   (to_path, Stream (ascii_bytes ''abc'')),
                   (body_path, Storage)]"

text \<open>
  A container whose directory has the two entries that the detector looks for, and a
  package that recognises the signature of a compound document and then fails to open it.
\<close>

definition marked_container :: ole_container where
  "marked_container =
     container_of [(lit ''__properties_version1.0'', Stream []),
                   (lit ''__recip_version1.0_#00000000'', Storage)]"

definition module_failing :: ole_module where
  "module_failing =
     \<lparr>isOleFile = (\<lambda>data c. (True, 0)), OleFileIO = (\<lambda>data c. (Inl (LibraryError 2), 8))\<rparr>"

text \<open>
  Four messages: one with all fields, a plain body and an HTML body; one whose only body
  is an HTML stream in a single-byte encoding; one whose HTML entry is a storage; and one
  without the stream of the sender's display name.
\<close>

definition mail_container :: ole_container where
  "mail_container =
     container_of [(sender_name_path, Stream (utf_16_le_bytes ''Alice'')),
                   (sender_address_path, Stream (utf_16_le_bytes ''a@x.com'')),
                   (subject_path, Stream (utf_16_le_bytes ''Hi'')),
                   (body_path, Stream (utf_16_le_bytes ''Hi there'')),
                   (html_path, Stream (ascii_bytes ''<html><body>Other</body></html>''))]"

definition html_only_container :: ole_container where
  "html_only_container =
     container_of [(sender_name_path, Stream (utf_16_le_bytes ''Alice'')),
                   (sender_address_path, Stream (utf_16_le_bytes ''a@x.com'')),
                   (subject_path, Stream (utf_16_le_bytes ''Hi'')),
                   (html_path, Stream (ascii_bytes ''<html><body>Hi</body></html>''))]"

definition storage_html_container :: ole_container where
  "storage_html_container =
     container_of [(sender_name_path, Stream (utf_16_le_bytes ''Alice'')),
                   (sender_address_path, Stream (utf_16_le_bytes ''a@x.com'')),
                   (subject_path, Stream (utf_16_le_bytes ''Hi'')),
                   (html_path, Storage)]"

definition no_sender_container :: ole_container where
  "no_sender_container =
     container_of [(sender_address_path, Stream (utf_16_le_bytes ''a@x.com'')),
                   (subject_path, Stream (utf_16_le_bytes ''Hi'')),
                   (body_path, Stream (utf_16_le_bytes ''Hi there''))]"

definition msg_info :: stream_info where
  "msg_info = \<lparr>mimetype = None, extension = Some (lit ''.msg'')\<rparr>"










section \<open>The specification's wording\<close>

text \<open>
  The definitions of this section are not taken from the source: they restate, in the
  words of the design document, what the functions of the previous section are said to
  compute. The theorems compare the two.
\<close>

text \<open>
  Plausibility of a decoded HTML text: it contains, after lower-casing, one of the four
  opening tags.
\<close>

definition plausible :: "'a env_scheme \<Rightarrow> pystr \<Rightarrow> bool" where
  "plausible E text \<longleftrightarrow>
     contains (lower E text) (lit ''<html'') \<or> contains (lower E text) (lit ''<body'') \<or>
     contains (lower E text) (lit ''<head'') \<or> contains (lower E text) (lit ''<div'')"

text \<open>
  The decodings that the HTML fallback tries, in their order: UTF-16LE, ISO-8859-1,
  UTF-8 with invalid sequences discarded; when the UTF-16LE decoding raises, ISO-8859-1
  is the only one.
\<close>

definition html_candidates :: "byte list \<Rightarrow> pystr list" where
  "html_candidates raw =
     (case decode_utf_16_le raw of
        Inr wide \<Rightarrow>
          [wide, map unat raw, List.map_filter (\<lambda>item. item) (utf8_scan (map unat raw))]
      | Inl _ \<Rightarrow> [map unat raw])"

text \<open>
  The rendering of the chosen text by the HTML-to-text function: what that function
  returns or raises. The function is called inside the handlers for decoding errors, so
  a \<open>UnicodeDecodeError\<close> raised by it is taken as one of the decoding: the
  ISO-8859-1 text is then tested and rendered, and a second such error ends in the empty
  text.
\<close>

definition rendered :: "'a env_scheme \<Rightarrow> byte list \<Rightarrow> pystr \<Rightarrow> exn + pystr" where
  "rendered E raw html =
     (if Markdownify E html = Inl UnicodeDecodeError then
        (if plausible E (strip_null_terminator (map unat raw)) then
           (if Markdownify E (strip_null_terminator (map unat raw)) = Inl UnicodeDecodeError
            then Inr []
            else Markdownify E (strip_null_terminator (map unat raw)))
         else Inr [])
      else Markdownify E html)"

text \<open>
  The first candidate that is plausible after normalization is rendered; without one the
  result is the empty text.
\<close>

definition html_fallback :: "'a env_scheme \<Rightarrow> byte list \<Rightarrow> exn + pystr" where
  "html_fallback E raw =
     (case find (plausible E) (map strip_null_terminator (html_candidates raw)) of
        Some html \<Rightarrow> rendered E raw html
      | None \<Rightarrow> Inr [])"

text \<open>
  The normalization of a decoded text: when it ends with a null character, exactly that
  one character is dropped; then leading and trailing whitespace is trimmed.
\<close>

definition normalize :: "pystr \<Rightarrow> pystr" where
  "normalize text = strip (if text \<noteq> [] \<and> last text = 0 then butlast text else text)"

text \<open>
  The decoding of the raw bytes of a stream: UTF-16LE when that succeeds, else UTF-8 when
  that succeeds, else UTF-8 with invalid sequences discarded.
\<close>

definition first_decoding :: "byte list \<Rightarrow> pystr" where
  "first_decoding data =
     (case decode_utf_16_le data of
        Inr text \<Rightarrow> text
      | Inl _ \<Rightarrow>
          (case decode_utf_8 data of
             Inr text \<Rightarrow> text
           | Inl _ \<Rightarrow> List.map_filter (\<lambda>item. item) (utf8_scan (map unat data))))"

text \<open>
  The decoded field of a stream path: absent when the stream does not exist or when the
  lookup or the read raises, else the normalized decoding of its bytes.
\<close>

definition decoded_field :: "ole_container \<Rightarrow> pystr \<Rightarrow> pystr option" where
  "decoded_field msg path =
     (case exists msg path of
        Inr True \<Rightarrow>
          (case openstream msg path of
             Inr data \<Rightarrow> Some (normalize (first_decoding data))
           | Inl _ \<Rightarrow> None)
      | _ \<Rightarrow> None)"

text \<open>
  What one lookup of a stream leaves in the world: the existence test, and the opening of
  the stream when the test said yes.
\<close>

definition lookup_events :: "ole_container \<Rightarrow> pystr \<Rightarrow> event list" where
  "lookup_events msg path =
     (if exists msg path = Inr True then [Exists path, OpenStream path] else [Exists path])"

definition after_lookup :: "ole_container \<Rightarrow> pystr \<Rightarrow> world \<Rightarrow> world" where
  "after_lookup msg path w =
     w\<lparr>cursor := (if exists msg path = Inr True
                  then repositions msg (repositions msg (cursor w))
                  else repositions msg (cursor w)),
       trace := trace w @ lookup_events msg path\<rparr>"

text \<open>
  The brute-force test of the detector: the package is there, the input is a compound
  document, it opens as a container, its directory can be listed, and the listing, one
  entry per line, contains both markers. An exception at the opening or the listing
  counts as no.
\<close>

definition container_probe :: "'a env_scheme \<Rightarrow> world \<Rightarrow> bool" where
  "container_probe E w =
     (case olefile E of
        None \<Rightarrow> False
      | Some lib \<Rightarrow>
          fst (isOleFile lib (stream_bytes w) (cursor w)) \<and>
          (case fst (OleFileIO lib (stream_bytes w) (cursor w)) of
             Inl _ \<Rightarrow> False
           | Inr msg \<Rightarrow>
               (case listdir msg of
                  Inl _ \<Rightarrow> False
                | Inr entries \<Rightarrow>
                    contains (join [10] (map (str E) entries)) (lit ''__properties_version1.0'')
                    \<and> contains (join [10] (map (str E) entries))
                          (lit ''__recip_version1.0_#00000000''))))"

text \<open>The two cheap tests of the detector, on the declared extension and media type.\<close>

definition extension_matches :: "'a env_scheme \<Rightarrow> 'b stream_info_scheme \<Rightarrow> bool" where
  "extension_matches E info \<longleftrightarrow>
     lower E (case extension info of None \<Rightarrow> [] | Some ext \<Rightarrow> ext) = lit ''.msg''"

definition mimetype_matches :: "'a env_scheme \<Rightarrow> 'b stream_info_scheme \<Rightarrow> bool" where
  "mimetype_matches E info \<longleftrightarrow>
     prefix (lit ''application/vnd.ms-outlook'')
       (lower E (case mimetype info of None \<Rightarrow> [] | Some mt \<Rightarrow> mt))"

section \<open>A closed form of the conversion\<close>

text \<open>
  The value of the \<open>From\<close> header as the design document composes it: the decoded
  display name, a space, and the decoded address in angle brackets. It is there when both
  fields are.
\<close>

definition from_field :: "ole_container \<Rightarrow> pystr option" where
  "from_field msg =
     (case decoded_field msg sender_name_path of
        None \<Rightarrow> None
      | Some name \<Rightarrow>
          (case decoded_field msg sender_address_path of
             None \<Rightarrow> None
           | Some address \<Rightarrow> Some (name @ lit '' <'' @ address @ lit ''>'')))"

text \<open>
  The text up to and including the heading of the content section: the title line, the
  header lines that have a value, and the heading.
\<close>

definition header_block :: "ole_container \<Rightarrow> pystr \<Rightarrow> pystr" where
  "header_block msg sender =
     add_headers (lit ''# Email Message'' @ [10, 10])
       [(lit ''From'', Some sender),
        (lit ''To'', decoded_field msg to_path),
        (lit ''Subject'', decoded_field msg subject_path)]
     @ [10] @ lit ''## Content'' @ [10, 10]"

text \<open>The plain-text body when it was decoded to a text that is not empty.\<close>

definition plain_body :: "ole_container \<Rightarrow> pystr option" where
  "plain_body msg =
     (case decoded_field msg body_path of
        None \<Rightarrow> None
      | Some text \<Rightarrow> if text = [] then None else Some text)"

text \<open>
  The content section: the plain body when there is one; else the HTML fallback on the
  raw bytes of the HTML stream when that exists; else nothing. The test for the HTML
  stream, its reading and its rendering are not guarded, so what they raise is the
  outcome.
\<close>

definition content_section :: "'a env_scheme \<Rightarrow> ole_container \<Rightarrow> exn + pystr" where
  "content_section E msg =
     (case plain_body msg of
        Some text \<Rightarrow> Inr text
      | None \<Rightarrow>
          (case exists msg html_path of
             Inl e \<Rightarrow> Inl e
           | Inr found \<Rightarrow>
               if found then
                 (case openstream msg html_path of
                    Inl e \<Rightarrow> Inl e
                  | Inr raw \<Rightarrow> html_fallback E raw)
               else Inr []))"

text \<open>The worlds that the steps of \<open>convert\<close> leave.\<close>

definition after_open :: "nat \<Rightarrow> world \<Rightarrow> world" where
  "after_open c w = w\<lparr>cursor := c, trace := trace w @ [Opened]\<rparr>"

definition after_headers :: "ole_container \<Rightarrow> world \<Rightarrow> world" where
  "after_headers msg w =
     after_lookup msg subject_path (after_lookup msg to_path
       (after_lookup msg sender_address_path (after_lookup msg sender_name_path w)))"

definition after_body :: "ole_container \<Rightarrow> world \<Rightarrow> world" where
  "after_body msg w =
     (case plain_body msg of
        Some _ \<Rightarrow> after_lookup msg body_path w
      | None \<Rightarrow> after_lookup msg html_path (after_lookup msg body_path w))"

definition after_close :: "world \<Rightarrow> world" where
  "after_close w = w\<lparr>trace := trace w @ [Closed]\<rparr>"

section \<open>Properties\<close>

subsection \<open>Codecs and the HTML stream\<close>

lemma decode_utf_16_le_raises: "decode_utf_16_le data = Inl e \<Longrightarrow> e = UnicodeDecodeError"
  by (auto simp: decode_utf_16_le_def split: option.splits)

lemma is_valid_html_plausible: "is_valid_html E text = plausible E text"
  by (simp add: is_valid_html_def plausible_def html_markers_def Let_def)

subsection \<open>The stream decoder\<close>

lemma strip_null_terminator_normalize: "strip_null_terminator text = normalize text"
  by (cases "text" rule: rev_cases) (simp_all add: strip_null_terminator_def normalize_def endswith_def Let_def)

lemma decode_utf_8_raises: "decode_utf_8 data = Inl e \<Longrightarrow> e = UnicodeDecodeError"
  by (auto simp: decode_utf_8_def Let_def split: if_splits)

lemma decode_chain:
  "try_except
     (bind_exn (decode_utf_16_le data) (\<lambda>decoded. Inr (Some (strip_null_terminator decoded))))
     is_UnicodeDecodeError
     (try_except
        (bind_exn (decode_utf_8 data) (\<lambda>decoded. Inr (Some (strip_null_terminator decoded))))
        is_UnicodeDecodeError
        (bind_exn (decode_utf_8_ignore data) (\<lambda>decoded. Inr (Some (strip_null_terminator decoded)))))
   = Inr (Some (normalize (first_decoding data)))"
  by (auto simp: try_except_def bind_exn_def first_decoding_def is_UnicodeDecodeError_def
      decode_utf_8_ignore_def strip_null_terminator_normalize
      dest: decode_utf_16_le_raises decode_utf_8_raises split: sum.splits)

lemma get_stream_data_eq:
  assumes "olefile E \<noteq> None"
  shows "get_stream_data E msg path w = (Inr (decoded_field msg path), after_lookup msg path w)"
proof -
  from assms obtain lib where lib: "olefile E = Some lib" by auto
  show ?thesis
proof (cases "exists msg path")
  case (Inl e)
  then show ?thesis using lib
    by (simp add: get_stream_data_def bindM_def try_exceptM_def call_exists_def
        is_Exception_def returnM_def decoded_field_def after_lookup_def lookup_events_def)
next
  case (Inr found)
  show ?thesis
  proof (cases found)
    case False
    with Inr show ?thesis using lib
      by (simp add: get_stream_data_def bindM_def try_exceptM_def call_exists_def
          is_Exception_def returnM_def decoded_field_def after_lookup_def lookup_events_def)
  next
    case True
    show ?thesis
    proof (cases "openstream msg path")
      case (Inl e)
      with Inr True show ?thesis using lib
        by (simp add: get_stream_data_def bindM_def try_exceptM_def call_exists_def
            call_openstream_read_def is_Exception_def returnM_def decoded_field_def
            after_lookup_def lookup_events_def)
    next
      case data: (Inr data)
      with Inr True show ?thesis using lib
        by (simp add: get_stream_data_def bindM_def try_exceptM_def call_exists_def
            call_openstream_read_def is_Exception_def returnM_def liftM_def decoded_field_def
            after_lookup_def lookup_events_def decode_chain)
    qed
  qed
qed
qed

lemmas path_defs = subject_path_def to_path_def body_path_def html_path_def
  sender_name_path_def sender_address_path_def lit_def

lemma hello_container_available: "olefile (env_with hello_container) \<noteq> None"
  by (simp add: env_with_def import_olefile_def)

lemma hello_container_subject:
  "decoded_field hello_container subject_path = Some (lit ''Hello'')"
  by (simp add: decoded_field_def hello_container_def container_of_def path_defs
      first_decoding_def utf_16_le_bytes_def decode_utf_16_le_def normalize_def strip_def
      isspace_def)

lemma hello_container_to: "decoded_field hello_container to_path = Some (lit ''abc'')"
  by (simp add: decoded_field_def hello_container_def container_of_def path_defs
      first_decoding_def ascii_bytes_def decode_utf_16_le_def decode_utf_8_def normalize_def
      strip_def isspace_def)

lemma hello_container_body: "decoded_field hello_container body_path = None"
  by (simp add: decoded_field_def hello_container_def container_of_def path_defs)

lemma hello_container_html: "decoded_field hello_container html_path = None"
  by (simp add: decoded_field_def hello_container_def container_of_def path_defs)

subsection \<open>The detector\<close>

lemma accepts_extension:
  "extension_matches E info \<Longrightarrow> accepts E info kwargs w = (Inr True, w)"
  by (simp add: accepts_def extension_matches_def or_empty_def ACCEPTED_FILE_EXTENSIONS_def
      returnM_def Let_def)

lemma accepts_mimetype:
  "mimetype_matches E info \<Longrightarrow> accepts E info kwargs w = (Inr True, w)"
  by (simp add: accepts_def mimetype_matches_def or_empty_def ACCEPTED_MIME_TYPE_PREFIXES_def
      startswith_def returnM_def Let_def)

lemma accepts_probe:
  assumes "\<not> extension_matches E info" "\<not> mimetype_matches E info"
  shows "fst (accepts E info kwargs w) = Inr (container_probe E w) \<and>
         cursor (snd (accepts E info kwargs w)) = cursor w \<and>
         stream_bytes (snd (accepts E info kwargs w)) = stream_bytes w"
proof (cases "olefile E")
  case None
  with assms show ?thesis
    by (simp add: accepts_def extension_matches_def mimetype_matches_def or_empty_def
        ACCEPTED_FILE_EXTENSIONS_def ACCEPTED_MIME_TYPE_PREFIXES_def startswith_def
        returnM_def bindM_def tell_def seek_def try_finallyM_def try_exceptM_def
        container_probe_def Let_def)
next
  case (Some lib)
  obtain b c where iso: "isOleFile lib (stream_bytes w) (cursor w) = (b, c)"
    by (cases "isOleFile lib (stream_bytes w) (cursor w)")
  obtain r c' where opn: "OleFileIO lib (stream_bytes w) (cursor w) = (r, c')"
    by (cases "OleFileIO lib (stream_bytes w) (cursor w)")
  from assms Some iso opn show ?thesis
    by (auto simp: accepts_def extension_matches_def mimetype_matches_def or_empty_def
        ACCEPTED_FILE_EXTENSIONS_def ACCEPTED_MIME_TYPE_PREFIXES_def startswith_def
        returnM_def bindM_def tell_def seek_def try_finallyM_def try_exceptM_def
        call_isOleFile_def call_OleFileIO_def call_listdir_def is_Exception_def
        container_probe_def properties_marker_def recip_marker_def Let_def
        split: sum.splits)
qed

lemma upper_extension_matches:
  "extension_matches (env_with marked_container)
     \<lparr>mimetype = None, extension = Some (lit ''.MSG'')\<rparr>"
  by (simp add: extension_matches_def env_with_def import_olefile_def base_env_def
      ascii_lower_def lit_def)

lemma outlook_mimetype_matches:
  "mimetype_matches (env_with marked_container)
     \<lparr>mimetype = Some (lit ''Application/VND.ms-outlook; charset=x''),
      extension = Some (lit ''.bin'')\<rparr>"
  by (simp add: mimetype_matches_def env_with_def import_olefile_def base_env_def
      ascii_lower_def lit_def)

lemma bin_matches_nothing:
  "\<not> extension_matches (env_with marked_container)
       \<lparr>mimetype = None, extension = Some (lit ''.bin'')\<rparr> \<and>
   \<not> mimetype_matches (env_with marked_container)
       \<lparr>mimetype = None, extension = Some (lit ''.bin'')\<rparr>"
  by (simp add: extension_matches_def mimetype_matches_def env_with_def import_olefile_def
      base_env_def ascii_lower_def lit_def)

lemma marked_container_probe: "container_probe (env_with marked_container) start_world"
  by (simp add: container_probe_def env_with_def import_olefile_def base_env_def
      module_opening_def marked_container_def container_of_def repr_names_def lit_def)

lemma module_failing_probe:
  "\<not> container_probe (import_olefile (Some module_failing) base_env) start_world"
  by (simp add: container_probe_def import_olefile_def base_env_def module_failing_def)

lemma module_rejecting_probe:
  "\<not> container_probe (import_olefile (Some module_rejecting) base_env) start_world"
  by (simp add: container_probe_def import_olefile_def base_env_def module_rejecting_def)

lemma module_failing_matches_nothing:
  "\<not> extension_matches (import_olefile (Some lib) base_env)
       \<lparr>mimetype = None, extension = None\<rparr> \<and>
   \<not> mimetype_matches (import_olefile (Some lib) base_env)
       \<lparr>mimetype = None, extension = None\<rparr>"
  by (simp add: extension_matches_def mimetype_matches_def import_olefile_def base_env_def
      ascii_lower_def lit_def)

lemma no_olefile_matches_nothing:
  "\<not> extension_matches env_without_olefile
       \<lparr>mimetype = Some (lit ''text/plain''), extension = Some (lit ''.txt'')\<rparr> \<and>
   \<not> mimetype_matches env_without_olefile
       \<lparr>mimetype = Some (lit ''text/plain''), extension = Some (lit ''.txt'')\<rparr>"
  by (simp add: extension_matches_def mimetype_matches_def env_without_olefile_def
      import_olefile_def base_env_def ascii_lower_def lit_def)

lemma no_olefile_probe: "\<not> container_probe (import_olefile None E) w"
  by (simp add: container_probe_def import_olefile_def)

subsection \<open>The conversion\<close>

lemma process_html_stream_eq:
  "process_html_stream E raw_data = html_fallback E raw_data"
proof (cases "decode_utf_16_le raw_data")
  case (Inl e)
  then have "e = UnicodeDecodeError" by (rule decode_utf_16_le_raises)
  with Inl show ?thesis
    by (auto simp: process_html_stream_def bind_exn_def try_except_def
        is_UnicodeDecodeError_def decode_iso_8859_1_def Let_def
        html_fallback_def html_candidates_def rendered_def is_valid_html_plausible
        split: sum.splits option.splits)
next
  case (Inr wide)
  then show ?thesis
    by (auto simp: process_html_stream_def bind_exn_def try_except_def
        is_UnicodeDecodeError_def decode_iso_8859_1_def decode_utf_8_ignore_def Let_def
        html_fallback_def html_candidates_def rendered_def is_valid_html_plausible
        split: sum.splits option.splits)
qed

text \<open>
  The two ends of the fallback on bytes that are an opening tag with one invalid byte
  inside: with an even number of bytes the UTF-16LE decoding returns, and the third
  decoding, which drops the byte, is plausible; with an odd number the UTF-16LE decoding
  raises, only ISO-8859-1 is tried, and the result is empty.
\<close>

lemma html_fallback_examples:
  "html_fallback (env_with c) (ascii_bytes ''<d'' @ [0xFF] @ ascii_bytes ''iv>ab'')
     = Inr (lit ''ab'')"
  "html_fallback (env_with c) (ascii_bytes ''<d'' @ [0xFF] @ ascii_bytes ''iv>a'') = Inr []"
  by (simp_all add: html_fallback_def html_candidates_def ascii_bytes_def decode_utf_16_le_def
      rendered_def plausible_def env_with_def import_olefile_def base_env_def ascii_lower_def lit_def
      strip_null_terminator_normalize normalize_def strip_def isspace_def is_cont_def
      List.map_filter_simps)

lemma from_header_eq:
  assumes "olefile E \<noteq> None"
  shows "from_header E msg w =
     (case decoded_field msg sender_name_path of
        None \<Rightarrow> (Inl TypeError, after_lookup msg sender_name_path w)
      | Some name \<Rightarrow>
          (case decoded_field msg sender_address_path of
             None \<Rightarrow> (Inl TypeError,
                       after_lookup msg sender_address_path (after_lookup msg sender_name_path w))
           | Some address \<Rightarrow> (Inr (name @ lit '' <'' @ address @ lit ''>''),
                       after_lookup msg sender_address_path (after_lookup msg sender_name_path w))))"
  using assms
  by (simp add: from_header_def bindM_def get_stream_data_eq liftM_def str_add_def
      split: option.splits)

lemma html_lookup_eq:
  "bindM (call_exists msg html_path) (\<lambda>found.
     if found then
       bindM (call_openstream_read msg html_path) (\<lambda>raw_data.
       bindM (liftM (process_html_stream E raw_data)) (\<lambda>html_content.
         if html_content \<noteq> [] \<and> 0 < length html_content
         then returnM (md_content @ html_content)
         else returnM md_content))
     else returnM md_content)
   = (\<lambda>w. ((case exists msg html_path of
         Inl e \<Rightarrow> Inl e
       | Inr found \<Rightarrow>
           if found then
             (case openstream msg html_path of
                Inl e \<Rightarrow> Inl e
              | Inr raw \<Rightarrow>
                  (case html_fallback E raw of
                     Inl e \<Rightarrow> Inl e
                   | Inr html_content \<Rightarrow> Inr (md_content @ html_content)))
           else Inr md_content),
      after_lookup msg html_path w))"
  by (rule ext) (auto simp: bindM_def call_exists_def call_openstream_read_def liftM_def returnM_def
      process_html_stream_eq after_lookup_def lookup_events_def split: sum.splits)

lemma add_body_eq:
  assumes "olefile E \<noteq> None"
  shows "add_body E msg md_content w =
     (case content_section E msg of Inl e \<Rightarrow> Inl e | Inr text \<Rightarrow> Inr (md_content @ text),
      after_body msg w)"
  using assms unfolding add_body_def Let_def html_lookup_eq
  by (auto simp: bindM_def get_stream_data_eq returnM_def
      content_section_def plain_body_def after_body_def split: option.splits sum.splits)

lemma convert_eq:
  assumes "dependency_exc_info E = None" and "olefile E = Some lib"
    and "OleFileIO lib (stream_bytes w) (cursor w) = (Inr msg, c)"
  shows "convert E info kwargs w =
     (case decoded_field msg sender_name_path of
        None \<Rightarrow> (Inl TypeError, after_lookup msg sender_name_path (after_open c w))
      | Some name \<Rightarrow>
          (case decoded_field msg sender_address_path of
             None \<Rightarrow> (Inl TypeError,
                       after_lookup msg sender_address_path
                         (after_lookup msg sender_name_path (after_open c w)))
           | Some address \<Rightarrow>
               (case content_section E msg of
                  Inl e \<Rightarrow> (Inl e, after_body msg (after_headers msg (after_open c w)))
                | Inr text \<Rightarrow>
                    (Inr \<lparr>markdown =
                            strip (header_block msg (name @ lit '' <'' @ address @ lit ''>'') @ text),
                          title = decoded_field msg subject_path\<rparr>,
                     after_close (after_body msg (after_headers msg (after_open c w)))))))"
  using assms
  by (simp add: convert_def bindM_def call_OleFileIO_def from_header_eq get_stream_data_eq
      add_body_eq call_close_def returnM_def Let_def header_block_def dict_get_def
      after_open_def after_headers_def after_close_def lit_def
      split: option.splits sum.splits)

subsection \<open>Stripping and the trace of calls\<close>

lemma strip_id:
  assumes "xs \<noteq> []" "\<not> isspace (hd xs)" "\<not> isspace (last xs)"
  shows "strip xs = xs"
proof -
  from assms(1,2) have a: "dropWhile isspace xs = xs" by (cases xs) simp_all
  from assms(1,3) have "dropWhile isspace (rev xs) = rev xs"
    by (cases xs rule: rev_cases) simp_all
  with a show ?thesis by (simp add: strip_def)
qed

lemma strip_last: "strip xs \<noteq> [] \<Longrightarrow> \<not> isspace (last (strip xs))"
proof -
  assume ne: "strip xs \<noteq> []"
  let ?ys = "dropWhile isspace (rev (dropWhile isspace xs))"
  from ne have "?ys \<noteq> []" by (simp add: strip_def)
  then have "\<not> isspace (hd ?ys)" by (rule hd_dropWhile)
  moreover have "last (strip xs) = hd ?ys" using \<open>?ys \<noteq> []\<close> by (simp add: strip_def last_rev)
  ultimately show ?thesis by simp
qed

lemma decoded_field_stripped:
  "decoded_field msg path = Some text \<Longrightarrow> text \<noteq> [] \<Longrightarrow> \<not> isspace (last text)"
  by (auto simp: decoded_field_def normalize_def dest: strip_last split: sum.splits bool.splits)

lemma add_headers_append: "add_headers acc items = acc @ add_headers [] items"
proof (induction items arbitrary: acc)
  case Nil
  show ?case by simp
next
  case (Cons item items)
  obtain key v where item: "item = (key, v)" by (cases item)
  show ?case
  proof (cases v)
    case None
    with item Cons.IH [of acc] show ?thesis by simp
  next
    case (Some t)
    with item Cons.IH [of "acc @ lit ''**'' @ key @ lit '':** '' @ t @ [10]"]
      Cons.IH [of "lit ''**'' @ key @ lit '':** '' @ t @ [10]"] Cons.IH [of acc]
    show ?thesis by simp
  qed
qed

lemma header_block_hd: "\<exists>rest. header_block msg sender = 35 # rest"
proof -
  have "header_block msg sender = (lit ''# Email Message'' @ [10, 10]) @
        add_headers [] [(lit ''From'', Some sender), (lit ''To'', decoded_field msg to_path),
          (lit ''Subject'', decoded_field msg subject_path)] @ [10] @ lit ''## Content'' @ [10, 10]"
    unfolding header_block_def by (subst add_headers_append) simp
  then show ?thesis by (simp add: lit_def)
qed

lemma strip_header_block:
  assumes "text \<noteq> []" "\<not> isspace (last text)"
  shows "strip (header_block msg sender @ text) = header_block msg sender @ text"
proof -
  obtain rest where r: "header_block msg sender = 35 # rest" using header_block_hd by blast
  show ?thesis
    using assms by (intro strip_id) (simp_all add: r isspace_def)
qed

lemma trace_after_lookup: "trace (after_lookup msg path w) = trace w @ lookup_events msg path"
  by (simp add: after_lookup_def)

lemma lookup_events_set:
  "Opened \<notin> set (lookup_events msg path)" "Closed \<notin> set (lookup_events msg path)"
  "Exists p \<in> set (lookup_events msg path) \<Longrightarrow> p = path"
  "OpenStream p \<in> set (lookup_events msg path) \<Longrightarrow> p = path"
  by (auto simp: lookup_events_def split: if_splits)

lemma html_path_distinct:
  "html_path \<noteq> sender_name_path" "html_path \<noteq> sender_address_path" "html_path \<noteq> to_path"
  "html_path \<noteq> subject_path" "html_path \<noteq> body_path"
  by (simp_all add: path_defs)

lemma trace_after_headers:
  "trace (after_headers msg w) = trace w @ lookup_events msg sender_name_path
     @ lookup_events msg sender_address_path @ lookup_events msg to_path
     @ lookup_events msg subject_path"
  by (simp add: after_headers_def trace_after_lookup)

subsection \<open>The conversion of the example messages\<close>

lemma env_with_facts:
  "dependency_exc_info (env_with c) = None"
  "olefile (env_with c) = Some (module_opening c)"
  "OleFileIO (module_opening c) (stream_bytes start_world) (cursor start_world) = (Inr c, 512)"
  "Markdownify (env_with c) = (\<lambda>html. Inr (drop_tags False html))"
  "lower (env_with c) = ascii_lower"
  by (simp_all add: env_with_def import_olefile_def base_env_def module_opening_def)

lemmas eval_defs = decoded_field_def container_of_def path_defs
  first_decoding_def utf_16_le_bytes_def ascii_bytes_def decode_utf_16_le_def decode_utf_8_def
  normalize_def strip_def isspace_def

lemma mail_fields:
  "decoded_field mail_container sender_name_path = Some (lit ''Alice'')"
  "decoded_field mail_container sender_address_path = Some (lit ''a@x.com'')"
  "decoded_field mail_container to_path = None"
  "decoded_field mail_container subject_path = Some (lit ''Hi'')"
  "decoded_field mail_container body_path = Some (lit ''Hi there'')"
  "exists mail_container html_path = Inr True"
  by (simp_all add: mail_container_def eval_defs)


lemma mail_exists:
  "exists mail_container sender_name_path = Inr True"
  "exists mail_container sender_address_path = Inr True"
  "exists mail_container to_path = Inr False"
  "exists mail_container subject_path = Inr True"
  "exists mail_container body_path = Inr True"
  "repositions mail_container = (\<lambda>c. c + 8)"
  by (simp_all add: mail_container_def container_of_def path_defs)

lemma mail_header_block:
  "header_block mail_container (lit ''Alice'' @ lit '' <'' @ lit ''a@x.com'' @ lit ''>'')
     = lit ''# Email Message'' @ [10, 10] @ lit ''**From:** Alice <a@x.com>''
              @ [10] @ lit ''**Subject:** Hi'' @ [10, 10] @ lit ''## Content'' @ [10, 10]"
  by (simp add: header_block_def mail_fields) (simp add: lit_def)

lemma mail_content: "content_section E mail_container = Inr (lit ''Hi there'')"
  by (simp add: content_section_def plain_body_def mail_fields) (simp add: lit_def)

lemma mail_plain: "plain_body mail_container = Some (lit ''Hi there'')"
  by (simp add: plain_body_def mail_fields) (simp add: lit_def)

lemma hi_there: "lit ''Hi there'' \<noteq> []" "\<not> isspace (last (lit ''Hi there''))"
  by (simp_all add: lit_def isspace_def)

lemma mail_convert:
  "convert (env_with mail_container) msg_info () start_world =
     (Inr \<lparr>markdown = lit ''# Email Message'' @ [10, 10] @ lit ''**From:** Alice <a@x.com>''
              @ [10] @ lit ''**Subject:** Hi'' @ [10, 10] @ lit ''## Content'' @ [10, 10]
              @ lit ''Hi there'',
           title = Some (lit ''Hi'')\<rparr>,
      \<lparr>stream_bytes = [], cursor = 584,
       trace = [Opened, Exists sender_name_path, OpenStream sender_name_path,
                Exists sender_address_path, OpenStream sender_address_path,
                Exists to_path, Exists subject_path, OpenStream subject_path,
                Exists body_path, OpenStream body_path, Closed]\<rparr>)"
  apply (simp only: convert_eq [OF env_with_facts(1-3)] mail_fields option.case mail_content
      sum.case strip_header_block [OF hi_there] mail_header_block)
  by (simp add: mail_plain
      after_close_def after_body_def after_headers_def after_lookup_def after_open_def
      lookup_events_def start_world_def mail_exists)


lemma html_only_fields:
  "decoded_field html_only_container sender_name_path = Some (lit ''Alice'')"
  "decoded_field html_only_container sender_address_path = Some (lit ''a@x.com'')"
  "decoded_field html_only_container to_path = None"
  "decoded_field html_only_container subject_path = Some (lit ''Hi'')"
  "decoded_field html_only_container body_path = None"
  by (simp_all add: html_only_container_def eval_defs)

lemma html_only_exists:
  "exists html_only_container sender_name_path = Inr True"
  "exists html_only_container sender_address_path = Inr True"
  "exists html_only_container to_path = Inr False"
  "exists html_only_container subject_path = Inr True"
  "exists html_only_container body_path = Inr False"
  "exists html_only_container html_path = Inr True"
  "openstream html_only_container html_path = Inr (ascii_bytes ''<html><body>Hi</body></html>'')"
  "repositions html_only_container = (\<lambda>c. c + 8)"
  by (simp_all add: html_only_container_def container_of_def path_defs)

lemma html_only_fallback:
  "html_fallback (env_with c) (ascii_bytes ''<html><body>Hi</body></html>'')
     = Inr (lit ''Hi'')"
  by (simp add: html_fallback_def html_candidates_def ascii_bytes_def decode_utf_16_le_def
      rendered_def
      plausible_def env_with_facts ascii_lower_def lit_def strip_null_terminator_normalize
      normalize_def strip_def isspace_def)

lemma html_only_content:
  "content_section (env_with html_only_container) html_only_container = Inr (lit ''Hi'')"
  by (simp add: content_section_def plain_body_def html_only_fields html_only_exists
      html_only_fallback)

lemma hi: "lit ''Hi'' \<noteq> []" "\<not> isspace (last (lit ''Hi''))"
  by (simp_all add: lit_def isspace_def)

lemma html_only_header_block:
  "header_block html_only_container (lit ''Alice'' @ lit '' <'' @ lit ''a@x.com'' @ lit ''>'')
     = lit ''# Email Message'' @ [10, 10] @ lit ''**From:** Alice <a@x.com>''
              @ [10] @ lit ''**Subject:** Hi'' @ [10, 10] @ lit ''## Content'' @ [10, 10]"
  by (simp add: header_block_def html_only_fields) (simp add: lit_def)

lemma html_only_convert:
  "convert (env_with html_only_container) msg_info () start_world =
     (Inr \<lparr>markdown = lit ''# Email Message'' @ [10, 10] @ lit ''**From:** Alice <a@x.com>''
              @ [10] @ lit ''**Subject:** Hi'' @ [10, 10] @ lit ''## Content'' @ [10, 10]
              @ lit ''Hi'',
           title = Some (lit ''Hi'')\<rparr>,
      \<lparr>stream_bytes = [], cursor = 592,
       trace = [Opened, Exists sender_name_path, OpenStream sender_name_path,
                Exists sender_address_path, OpenStream sender_address_path,
                Exists to_path, Exists subject_path, OpenStream subject_path,
                Exists body_path, Exists html_path, OpenStream html_path, Closed]\<rparr>)"
  apply (simp only: convert_eq [OF env_with_facts(1-3)] html_only_fields option.case
      html_only_content sum.case strip_header_block [OF hi] html_only_header_block)
  by (simp add: plain_body_def html_only_fields
      after_close_def after_body_def after_headers_def after_lookup_def after_open_def
      lookup_events_def start_world_def html_only_exists)

lemma storage_html_fields:
  "decoded_field storage_html_container sender_name_path = Some (lit ''Alice'')"
  "decoded_field storage_html_container sender_address_path = Some (lit ''a@x.com'')"
  "decoded_field storage_html_container body_path = None"
  by (simp_all add: storage_html_container_def eval_defs)

lemma storage_html_exists:
  "exists storage_html_container sender_name_path = Inr True"
  "exists storage_html_container sender_address_path = Inr True"
  "exists storage_html_container to_path = Inr False"
  "exists storage_html_container subject_path = Inr True"
  "exists storage_html_container body_path = Inr False"
  "exists storage_html_container html_path = Inr True"
  "openstream storage_html_container html_path = Inl (LibraryError 1)"
  "repositions storage_html_container = (\<lambda>c. c + 8)"
  by (simp_all add: storage_html_container_def container_of_def path_defs)

lemma storage_html_content:
  "content_section E storage_html_container = Inl (LibraryError 1)"
  by (simp add: content_section_def plain_body_def storage_html_fields storage_html_exists)

lemma storage_html_convert:
  "convert (env_with storage_html_container) msg_info () start_world =
     (Inl (LibraryError 1),
      \<lparr>stream_bytes = [], cursor = 592,
       trace = [Opened, Exists sender_name_path, OpenStream sender_name_path,
                Exists sender_address_path, OpenStream sender_address_path,
                Exists to_path, Exists subject_path, OpenStream subject_path,
                Exists body_path, Exists html_path, OpenStream html_path]\<rparr>)"
  apply (simp only: convert_eq [OF env_with_facts(1-3)] storage_html_fields option.case
      storage_html_content sum.case)
  by (simp add: plain_body_def storage_html_fields
      after_body_def after_headers_def after_lookup_def after_open_def
      lookup_events_def start_world_def storage_html_exists)

lemma no_sender_fields:
  "decoded_field no_sender_container sender_name_path = None"
  "exists no_sender_container sender_name_path = Inr False"
  "repositions no_sender_container = (\<lambda>c. c + 8)"
  by (simp_all add: no_sender_container_def eval_defs)

lemma no_sender_convert:
  "convert (env_with no_sender_container) msg_info () start_world =
     (Inl TypeError,
      \<lparr>stream_bytes = [], cursor = 520, trace = [Opened, Exists sender_name_path]\<rparr>)"
  apply (simp only: convert_eq [OF env_with_facts(1-3)] no_sender_fields option.case)
  by (simp add: after_lookup_def after_open_def lookup_events_def start_world_def
      no_sender_fields)

subsection \<open>Outcomes as functions of the input\<close>



subsection \<open>Markup nested beyond the bound on calls\<close>












subsection \<open>A package that reads at the read position\<close>



subsection \<open>The claims\<close>





text \<open>
  C5. For every container and stream path the stream decoder raises nothing. It returns
  an absent field when the stream does not exist or when the lookup or the read raises;
  otherwise it returns the bytes decoded as UTF-16LE, else as UTF-8, else as UTF-8 with
  invalid sequences discarded (which always succeeds), normalized: one trailing null
  character dropped, then whitespace trimmed at both ends.
\<close>

theorem get_stream_data_decodes:
  assumes "olefile E \<noteq> None"
  shows "fst (get_stream_data E msg path w) = Inr (decoded_field msg path)"
  using assms by (simp add: get_stream_data_eq)

text \<open>
  The UTF-16LE bytes of \<open>Hello\<close> with a null character give the field \<open>Hello\<close>; an
  odd number of ASCII bytes is decoded by the second codec; an entry that cannot be read
  and a path that does not exist give an absent field.
\<close>

theorem get_stream_data_decodes_witness:
  "olefile (env_with hello_container) \<noteq> None \<and>
   fst (get_stream_data (env_with hello_container) hello_container subject_path start_world)
     = Inr (Some (lit ''Hello'')) \<and>
   fst (get_stream_data (env_with hello_container) hello_container to_path start_world)
     = Inr (Some (lit ''abc'')) \<and>
   fst (get_stream_data (env_with hello_container) hello_container body_path start_world)
     = Inr None \<and>
   fst (get_stream_data (env_with hello_container) hello_container html_path start_world)
     = Inr None"
  using get_stream_data_decodes [OF hello_container_available, of hello_container _ start_world]
    hello_container_available hello_container_subject hello_container_to
    hello_container_body hello_container_html
  by simp

text \<open>
  C6. \<open>accepts\<close> makes its tests in order and stops at the first that accepts: it
  returns true when the declared extension, lower-cased, is the canonical one, whatever
  the content, and the stream and the package are not touched; it returns true when the
  declared media type, lower-cased, starts with the canonical prefix; otherwise it
  returns true only if the input opens as a container whose joined directory listing
  contains both markers. An exception while the container is probed gives false; no
  exception leaves \<open>accepts\<close>.
\<close>

theorem accepts_checks_in_order:
  "(extension_matches E info \<longrightarrow> accepts E info kwargs w = (Inr True, w)) \<and>
   (mimetype_matches E info \<longrightarrow> accepts E info kwargs w = (Inr True, w)) \<and>
   (\<not> extension_matches E info \<and> \<not> mimetype_matches E info \<longrightarrow>
      fst (accepts E info kwargs w) = Inr (container_probe E w)) \<and>
   (\<exists>answer. fst (accepts E info kwargs w) = Inr answer)"
proof -
  have "\<exists>answer. fst (accepts E info kwargs w) = Inr answer"
  proof (cases "extension_matches E info \<or> mimetype_matches E info")
    case True
    then show ?thesis by (auto simp: accepts_extension accepts_mimetype)
  next
    case False
    then show ?thesis using accepts_probe [of E info kwargs w] by simp
  qed
  then show ?thesis
    using accepts_probe [of E info kwargs w] by (simp add: accepts_extension accepts_mimetype)
qed

theorem accepts_checks_in_order_witness:
  "extension_matches (env_with marked_container)
     \<lparr>mimetype = None, extension = Some (lit ''.MSG'')\<rparr> \<and>
   accepts (env_with marked_container)
     \<lparr>mimetype = None, extension = Some (lit ''.MSG'')\<rparr> () start_world
     = (Inr True, start_world) \<and>
   mimetype_matches (env_with marked_container)
     \<lparr>mimetype = Some (lit ''Application/VND.ms-outlook; charset=x''),
      extension = Some (lit ''.bin'')\<rparr> \<and>
   accepts (env_with marked_container)
     \<lparr>mimetype = Some (lit ''Application/VND.ms-outlook; charset=x''),
      extension = Some (lit ''.bin'')\<rparr> () start_world
     = (Inr True, start_world) \<and>
   \<not> extension_matches (env_with marked_container)
       \<lparr>mimetype = None, extension = Some (lit ''.bin'')\<rparr> \<and>
   \<not> mimetype_matches (env_with marked_container)
       \<lparr>mimetype = None, extension = Some (lit ''.bin'')\<rparr> \<and>
   fst (accepts (env_with marked_container)
          \<lparr>mimetype = None, extension = Some (lit ''.bin'')\<rparr> () start_world) = Inr True \<and>
   fst (accepts (import_olefile (Some module_failing) base_env)
          \<lparr>mimetype = None, extension = None\<rparr> () start_world) = Inr False \<and>
   fst (accepts (import_olefile (Some module_rejecting) base_env)
          \<lparr>mimetype = None, extension = None\<rparr> () start_world) = Inr False"
  using
    accepts_checks_in_order [of "env_with marked_container"
      "\<lparr>mimetype = None, extension = Some (lit ''.MSG'')\<rparr>" "()" start_world]
    accepts_checks_in_order [of "env_with marked_container"
      "\<lparr>mimetype = Some (lit ''Application/VND.ms-outlook; charset=x''),
        extension = Some (lit ''.bin'')\<rparr>" "()" start_world]
    accepts_checks_in_order [of "env_with marked_container"
      "\<lparr>mimetype = None, extension = Some (lit ''.bin'')\<rparr>" "()" start_world]
    accepts_checks_in_order [of "import_olefile (Some module_failing) base_env"
      "\<lparr>mimetype = None, extension = None\<rparr>" "()" start_world]
    accepts_checks_in_order [of "import_olefile (Some module_rejecting) base_env"
      "\<lparr>mimetype = None, extension = None\<rparr>" "()" start_world]
    module_rejecting_probe
    upper_extension_matches outlook_mimetype_matches bin_matches_nothing
    marked_container_probe module_failing_probe module_failing_matches_nothing
  by simp

text \<open>
  C7. \<open>accepts\<close> leaves the read position of the input where it found it, on every
  branch: when the extension or the media type decides, when the container is probed, and
  when the probing raises. The bytes of the input are not changed either.
\<close>

theorem accepts_restores_cursor:
  "cursor (snd (accepts E info kwargs w)) = cursor w \<and>
   stream_bytes (snd (accepts E info kwargs w)) = stream_bytes w"
proof (cases "extension_matches E info \<or> mimetype_matches E info")
  case True
  then show ?thesis by (auto simp: accepts_extension accepts_mimetype)
next
  case False
  then show ?thesis using accepts_probe [of E info kwargs w] by simp
qed

text \<open>
  C8. When the olefile package could not be imported, \<open>convert\<close> raises the
  missing-dependency error, which names the format \<open>.msg\<close> and the feature
  \<open>outlook\<close>, for every input and without touching it; \<open>accepts\<close> raises nothing and
  rejects every input whose extension and media type do not match.
\<close>

theorem without_olefile:
  "convert (import_olefile None E) info kwargs w =
     (Inl (MissingDependencyException (lit ''OutlookMsgConverter'') (lit ''.msg'')
            (lit ''outlook'')), w) \<and>
   (\<not> extension_matches (import_olefile None E) info \<and>
    \<not> mimetype_matches (import_olefile None E) info \<longrightarrow>
      fst (accepts (import_olefile None E) info kwargs w) = Inr False) \<and>
   (\<exists>answer. fst (accepts (import_olefile None E) info kwargs w) = Inr answer)"
proof -
  have "convert (import_olefile None E) info kwargs w =
     (Inl (MissingDependencyException (lit ''OutlookMsgConverter'') (lit ''.msg'')
            (lit ''outlook'')), w)"
    by (simp add: convert_def import_olefile_def raiseM_def)
  moreover have "\<exists>answer. fst (accepts (import_olefile None E) info kwargs w) = Inr answer"
  proof (cases "extension_matches (import_olefile None E) info
                \<or> mimetype_matches (import_olefile None E) info")
    case True
    then show ?thesis by (auto simp: accepts_extension accepts_mimetype)
  next
    case False
    then show ?thesis using accepts_probe [of "import_olefile None E" info kwargs w] by simp
  qed
  ultimately show ?thesis
    using accepts_probe [of "import_olefile None E" info kwargs w]
    by (simp add: no_olefile_probe)
qed

theorem without_olefile_witness:
  "\<not> extension_matches env_without_olefile
       \<lparr>mimetype = Some (lit ''text/plain''), extension = Some (lit ''.txt'')\<rparr> \<and>
   \<not> mimetype_matches env_without_olefile
       \<lparr>mimetype = Some (lit ''text/plain''), extension = Some (lit ''.txt'')\<rparr> \<and>
   fst (accepts env_without_olefile
          \<lparr>mimetype = Some (lit ''text/plain''), extension = Some (lit ''.txt'')\<rparr> ()
          start_world) = Inr False \<and>
   fst (convert env_without_olefile
          \<lparr>mimetype = Some (lit ''text/plain''), extension = Some (lit ''.txt'')\<rparr> ()
          start_world)
     = Inl (MissingDependencyException (lit ''OutlookMsgConverter'') (lit ''.msg'')
             (lit ''outlook''))"
  using without_olefile [of base_env
      "\<lparr>mimetype = Some (lit ''text/plain''), extension = Some (lit ''.txt'')\<rparr>" "()"
      start_world]
    no_olefile_matches_nothing
  by (simp add: env_without_olefile_def)

text \<open>
  C1. The \<open>From\<close> header is the decoded display name, a space and the decoded address in
  angle brackets; the claim says that for a message that lacks one of the two streams the
  concatenation goes on with an empty string and \<open>convert\<close> does not raise. The source
  adds the result of the decoder, which is \<open>None\<close> for an absent stream, to a string:
  on a message without the stream of the display name \<open>convert\<close> raises \<open>TypeError\<close>
  after the first lookup, and the container is left open.
\<close>

theorem convert_without_sender_name:
  "exists no_sender_container sender_name_path = Inr False \<and>
   convert (env_with no_sender_container) msg_info () start_world =
     (Inl TypeError,
      \<lparr>stream_bytes = [], cursor = 520, trace = [Opened, Exists sender_name_path]\<rparr>)"
  by (simp add: no_sender_convert no_sender_fields)

text \<open>
  C2, as the source has it. Every run of \<open>convert\<close> that returns a result has opened
  the container once and has closed it as its last call on it, after all lookups, also
  when the stream decoder swallowed errors of single fields.
\<close>

theorem convert_returns_closed:
  assumes "fst (convert E info kwargs w) = Inr res"
  shows "\<exists>evs. trace (snd (convert E info kwargs w)) = trace w @ [Opened] @ evs @ [Closed] \<and>
           Opened \<notin> set evs \<and> Closed \<notin> set evs"
proof -
  from assms have dep: "dependency_exc_info E = None"
    by (auto simp: convert_def raiseM_def split: option.splits)
  from assms dep obtain lib where lib: "olefile E = Some lib"
    by (auto simp: convert_def raiseM_def split: option.splits)
  obtain r c where opn: "OleFileIO lib (stream_bytes w) (cursor w) = (r, c)"
    by (cases "OleFileIO lib (stream_bytes w) (cursor w)")
  from assms dep lib opn obtain msg where msg: "r = Inr msg"
    by (cases r) (auto simp: convert_def bindM_def call_OleFileIO_def)
  note eq = convert_eq [OF dep lib opn [unfolded msg], of info kwargs]
  from assms show ?thesis
    unfolding eq
    by (auto simp: after_close_def after_body_def after_open_def trace_after_lookup
        trace_after_headers lookup_events_set split: option.splits sum.splits)
qed

theorem convert_returns_closed_witness:
  "fst (convert (env_with mail_container) msg_info () start_world) =
     Inr \<lparr>markdown = lit ''# Email Message'' @ [10, 10] @ lit ''**From:** Alice <a@x.com>''
              @ [10] @ lit ''**Subject:** Hi'' @ [10, 10] @ lit ''## Content'' @ [10, 10]
              @ lit ''Hi there'',
          title = Some (lit ''Hi'')\<rparr> \<and>
   (\<exists>evs. trace (snd (convert (env_with mail_container) msg_info () start_world))
             = trace start_world @ [Opened] @ evs @ [Closed] \<and>
          Opened \<notin> set evs \<and> Closed \<notin> set evs)"
proof -
  have returned: "fst (convert (env_with mail_container) msg_info () start_world) =
     Inr \<lparr>markdown = lit ''# Email Message'' @ [10, 10] @ lit ''**From:** Alice <a@x.com>''
              @ [10] @ lit ''**Subject:** Hi'' @ [10, 10] @ lit ''## Content'' @ [10, 10]
              @ lit ''Hi there'',
          title = Some (lit ''Hi'')\<rparr>"
    by (simp add: mail_convert)
  from convert_returns_closed [OF returned] returned show ?thesis by simp
qed

text \<open>
  C2, as the claim has it, fails when an error leaves \<open>convert\<close>: the HTML entry of
  this message is a storage, so it exists and cannot be read; the error of the read is
  not caught, and the run ends with the container opened and not closed.
\<close>

theorem convert_leaves_container_open:
  "fst (convert (env_with storage_html_container) msg_info () start_world)
     = Inl (LibraryError 1) \<and>
   Opened \<in> set (trace (snd (convert (env_with storage_html_container) msg_info ()
                               start_world))) \<and>
   Closed \<notin> set (trace (snd (convert (env_with storage_html_container) msg_info ()
                               start_world)))"
  by (simp add: storage_html_convert)

text \<open>
  C3. Whenever the plain-text body is decoded to a text that is not empty, \<open>convert\<close>
  makes no call on the HTML stream, whether that stream exists or not, and the text it
  returns is the header block followed by exactly the decoded body. A call on the HTML
  stream happens only when the plain body is absent or empty.
\<close>

theorem convert_plain_body:
  assumes dep: "dependency_exc_info E = None" and lib: "olefile E = Some lib"
    and opened: "fst (OleFileIO lib (stream_bytes w) (cursor w)) = Inr msg"
  shows "\<exists>evs. trace (snd (convert E info kwargs w)) = trace w @ evs \<and>
     (\<forall>text. decoded_field msg body_path = Some text \<and> text \<noteq> [] \<longrightarrow>
        Exists html_path \<notin> set evs \<and> OpenStream html_path \<notin> set evs \<and>
        (\<forall>res. fst (convert E info kwargs w) = Inr res \<longrightarrow>
           (\<exists>sender. from_field msg = Some sender \<and>
              markdown res = header_block msg sender @ text))) \<and>
     (Exists html_path \<in> set evs \<or> OpenStream html_path \<in> set evs \<longrightarrow>
        decoded_field msg body_path = None \<or> decoded_field msg body_path = Some [])"
proof -
  obtain c where opn: "OleFileIO lib (stream_bytes w) (cursor w) = (Inr msg, c)"
    using opened by (cases "OleFileIO lib (stream_bytes w) (cursor w)") simp
  note eq = convert_eq [OF dep lib opn, of info kwargs]
  have nohtml: "\<And>p. p \<noteq> html_path \<Longrightarrow>
      Exists html_path \<notin> set (lookup_events msg p) \<and> OpenStream html_path \<notin> set (lookup_events msg p)"
    using lookup_events_set(3,4) by blast
  show ?thesis
  proof (cases "decoded_field msg sender_name_path")
    case None
    then show ?thesis unfolding eq
      using nohtml [of sender_name_path] html_path_distinct
      by (simp add: trace_after_lookup after_open_def)
  next
    case name: (Some name)
    show ?thesis
    proof (cases "decoded_field msg sender_address_path")
      case None
      with name show ?thesis unfolding eq
        using nohtml [of sender_name_path] nohtml [of sender_address_path] html_path_distinct
        by (simp add: trace_after_lookup after_open_def)
    next
      case address: (Some address)
      have ff: "from_field msg = Some (name @ lit '' <'' @ address @ lit ''>'')"
        using name address by (simp add: from_field_def)
      show ?thesis
      proof (cases "plain_body msg")
        case None
        then have absent: "decoded_field msg body_path = None \<or> decoded_field msg body_path = Some []"
          by (auto simp: plain_body_def split: option.splits if_splits)
        have "\<exists>evs. trace (snd (convert E info kwargs w)) = trace w @ evs"
          unfolding eq using name address
          by (auto simp: trace_after_lookup trace_after_headers after_open_def after_close_def
              after_body_def split: sum.splits option.splits)
        with absent show ?thesis by auto
      next
        case (Some plain)
        then have body: "decoded_field msg body_path = Some plain" and ne: "plain \<noteq> []"
          by (auto simp: plain_body_def split: option.splits if_splits)
        have sp: "\<not> isspace (last plain)" using body ne by (rule decoded_field_stripped)
        have cs: "content_section E msg = Inr plain" using Some by (simp add: content_section_def)
        have tr: "trace (snd (convert E info kwargs w)) = trace w @ ([Opened]
            @ lookup_events msg sender_name_path @ lookup_events msg sender_address_path
            @ lookup_events msg to_path @ lookup_events msg subject_path
            @ lookup_events msg body_path @ [Closed])"
          unfolding eq using name address cs Some
          by (simp add: trace_after_lookup trace_after_headers after_open_def after_close_def
              after_body_def)
        have md: "fst (convert E info kwargs w) =
            Inr \<lparr>markdown = header_block msg (name @ lit '' <'' @ address @ lit ''>'') @ plain,
                 title = decoded_field msg subject_path\<rparr>"
          unfolding eq using name address cs by (simp add: strip_header_block [OF ne sp])
        show ?thesis
          apply (rule exI, rule conjI, rule tr)
          using nohtml [of sender_name_path] nohtml [of sender_address_path] nohtml [of to_path]
            nohtml [of subject_path] nohtml [of body_path] html_path_distinct body ne md ff
          by auto
      qed
    qed
  qed
qed

theorem convert_plain_body_witness:
  "dependency_exc_info (env_with mail_container) = None \<and>
   olefile (env_with mail_container) = Some (module_opening mail_container) \<and>
   fst (OleFileIO (module_opening mail_container) (stream_bytes start_world)
         (cursor start_world)) = Inr mail_container \<and>
   decoded_field mail_container body_path = Some (lit ''Hi there'') \<and>
   lit ''Hi there'' \<noteq> [] \<and>
   exists mail_container html_path = Inr True \<and>
   Exists html_path \<notin> set (trace (snd (convert (env_with mail_container) msg_info ()
                                        start_world))) \<and>
   OpenStream html_path \<notin> set (trace (snd (convert (env_with mail_container) msg_info ()
                                        start_world))) \<and>
   (\<exists>res. fst (convert (env_with mail_container) msg_info () start_world) = Inr res \<and>
      markdown res = header_block mail_container (lit ''Alice <a@x.com>'') @ lit ''Hi there'') \<and>
   OpenStream html_path \<in> set (trace (snd (convert (env_with html_only_container) msg_info ()
                                        start_world))) \<and>
   decoded_field html_only_container body_path = None"
proof -
  have opened: "fst (OleFileIO (module_opening c) (stream_bytes start_world)
      (cursor start_world)) = Inr c" for c
    by (simp add: env_with_facts)
  have sender: "from_field mail_container = Some (lit ''Alice <a@x.com>'')"
    by (simp add: from_field_def mail_fields) (simp add: lit_def)
  have fresh: "trace start_world = []"
    by (simp add: start_world_def)
  from convert_plain_body [OF env_with_facts(1,2) opened, of mail_container msg_info "()"]
    convert_plain_body [OF env_with_facts(1,2) opened, of html_only_container msg_info "()"]
    opened [of mail_container] sender
  show ?thesis
    by (auto simp: mail_convert html_only_convert mail_fields html_only_fields env_with_facts
        fresh hi_there html_path_distinct)
qed




end
